theory Spec2Isabelle
  imports Main
begin

section \<open>Values, errors and panics\<close>

text \<open>
  A Go \<^verbatim>\<open>error\<close> is represented by its message; the \<^verbatim>\<open>nil\<close> error is \<open>None\<close> of
  \<open>error option\<close>. A slice is a list, and the \<^verbatim>\<open>nil\<close> slice (or map, or pointer) is
  \<open>None\<close>. Values of type \<^verbatim>\<open>interface{}\<close> are the dynamically typed values that the
  client passes as arguments and receives in replies.
\<close>

type_synonym error = string

type_synonym 'a slice = "'a list option"

datatype any =
    VNil
  | VBool bool
  | VInt int
  | VString string
  | VList "any list"
  | VMap "(string \<times> any) list"

text \<open>
  The two run-time panics that \<^verbatim>\<open>make_request\<close> can raise: a failed type assertion
  \<^verbatim>\<open>args[i].(string)\<close> at index \<open>i\<close>, and an index out of range (index, length).
\<close>

datatype panic =
    TypeAssertion nat
  | IndexOutOfRange nat nat

type_synonym request = "string \<rightharpoonup> any"

section \<open>jsonrpc.go: the request builder\<close>

text \<open>The type assertion \<^verbatim>\<open>v.(string)\<close>.\<close>

fun as_string :: "any \<Rightarrow> string option" where
  "as_string (VString s) = Some s"
| "as_string _ = None"

text \<open>
  \<^verbatim>\<open>for i := 0; i < len(args); i += 2 { request[args[i].(string)] = args[i+1] }\<close>
  The model makes the type assertion on \<^verbatim>\<open>args[i]\<close> first, then the read of
  \<^verbatim>\<open>args[i+1]\<close>, then the store into the map. Where both the assertion and the read
  would panic, Go does not fix which panic is raised; nothing below depends on it.
\<close>

function make_request_from :: "any list \<Rightarrow> nat \<Rightarrow> request \<Rightarrow> panic + request" where
  "make_request_from args i request =
     (if i < length args then
        (case as_string (args ! i) of
           None \<Rightarrow> Inl (TypeAssertion i)
         | Some name \<Rightarrow>
             if i + 1 < length args
             then make_request_from args (i + 2) (request(name \<mapsto> args ! (i + 1)))
             else Inl (IndexOutOfRange (i + 1) (length args)))
      else Inr request)"
  by pat_completeness auto
termination
  by (relation "measure (\<lambda>(args, i, request). length args - i)") auto

declare make_request_from.simps [simp del]

definition make_request :: "any list \<Rightarrow> panic + request" where
  "make_request args = make_request_from args 0 Map.empty"

section \<open>jsonrpc.go: the client and its dispatch helpers\<close>

text \<open>
  \<^verbatim>\<open>rpc.Client.Call(method, args, reply)\<close> belongs to the RPC library, not to this
  program. It is a parameter of the model: a function of the method, the request and
  the connection state \<open>'w\<close> that gives the returned error, the contents of the reply
  variable after the call, and the new connection state. Go fixes the shape of the
  reply by the static type of the variable passed, so the parameter has one field for
  each reply type the client uses. The model takes \<^verbatim>\<open>Call\<close> to return.
\<close>

record 'w rpc =
  Call_array_of_arrays :: "string \<Rightarrow> request \<Rightarrow> 'w \<Rightarrow> error option \<times> any slice slice \<times> 'w"
  Call_object :: "string \<Rightarrow> request \<Rightarrow> 'w \<Rightarrow> error option \<times> (string \<rightharpoonup> any) option \<times> 'w"
  Call_array_of_objects ::
    "string \<Rightarrow> request \<Rightarrow> 'w \<Rightarrow> error option \<times> (string \<rightharpoonup> any) option slice \<times> 'w"
  Call_string :: "string \<Rightarrow> request \<Rightarrow> 'w \<Rightarrow> error option \<times> string \<times> 'w"
  Call_optional_string :: "string \<Rightarrow> request \<Rightarrow> 'w \<Rightarrow> error option \<times> string option \<times> 'w"
  Call_string_array :: "string \<Rightarrow> request \<Rightarrow> 'w \<Rightarrow> error option \<times> string slice \<times> 'w"
  Call_void :: "string \<Rightarrow> request \<Rightarrow> 'w \<Rightarrow> error option \<times> any \<times> 'w"

text \<open>
  \<^verbatim>\<open>type M2MClient struct { rpc.Client; Error error; LastOp string }\<close>
  The field \<open>calls\<close> is not in the source: it records every invocation of
  \<^verbatim>\<open>Call\<close> (method, request, returned error), oldest first, so that "no round trip"
  can be stated.
\<close>

record 'w M2MClient =
  Client :: 'w
  Error :: "error option"
  LastOp :: string
  calls :: "(string \<times> request \<times> error option) list"

definition call_for_array_of_arrays ::
  "'w rpc \<Rightarrow> string \<Rightarrow> any list \<Rightarrow> 'w M2MClient \<Rightarrow> panic + (any slice slice \<times> 'w M2MClient)" where
  "call_for_array_of_arrays lib method args m2m =
     (if Error m2m \<noteq> None then Inr (None, m2m)
      else case make_request args of
             Inl p \<Rightarrow> Inl p
           | Inr request \<Rightarrow>
               (case Call_array_of_arrays lib method request (Client m2m) of
                  (err, reply, w) \<Rightarrow>
                    Inr (reply, m2m\<lparr>Client := w, Error := err, LastOp := method,
                                    calls := calls m2m @ [(method, request, err)]\<rparr>)))"

definition call_for_object ::
  "'w rpc \<Rightarrow> string \<Rightarrow> any list \<Rightarrow> 'w M2MClient \<Rightarrow>
     panic + ((string \<rightharpoonup> any) option \<times> 'w M2MClient)" where
  "call_for_object lib method args m2m =
     (if Error m2m \<noteq> None then Inr (None, m2m)
      else case make_request args of
             Inl p \<Rightarrow> Inl p
           | Inr request \<Rightarrow>
               (case Call_object lib method request (Client m2m) of
                  (err, reply, w) \<Rightarrow>
                    Inr (reply, m2m\<lparr>Client := w, Error := err, LastOp := method,
                                    calls := calls m2m @ [(method, request, err)]\<rparr>)))"

definition call_for_array_of_objects ::
  "'w rpc \<Rightarrow> string \<Rightarrow> any list \<Rightarrow> 'w M2MClient \<Rightarrow>
     panic + ((string \<rightharpoonup> any) option slice \<times> 'w M2MClient)" where
  "call_for_array_of_objects lib method args m2m =
     (if Error m2m \<noteq> None then Inr (None, m2m)
      else case make_request args of
             Inl p \<Rightarrow> Inl p
           | Inr request \<Rightarrow>
               (case Call_array_of_objects lib method request (Client m2m) of
                  (err, reply, w) \<Rightarrow>
                    Inr (reply, m2m\<lparr>Client := w, Error := err, LastOp := method,
                                    calls := calls m2m @ [(method, request, err)]\<rparr>)))"

definition call_for_string ::
  "'w rpc \<Rightarrow> string \<Rightarrow> any list \<Rightarrow> 'w M2MClient \<Rightarrow> panic + (string \<times> 'w M2MClient)" where
  "call_for_string lib method args m2m =
     (if Error m2m \<noteq> None then Inr ('''', m2m)
      else case make_request args of
             Inl p \<Rightarrow> Inl p
           | Inr request \<Rightarrow>
               (case Call_string lib method request (Client m2m) of
                  (err, reply, w) \<Rightarrow>
                    Inr (reply, m2m\<lparr>Client := w, Error := err, LastOp := method,
                                    calls := calls m2m @ [(method, request, err)]\<rparr>)))"

definition call_for_optional_string ::
  "'w rpc \<Rightarrow> string \<Rightarrow> any list \<Rightarrow> 'w M2MClient \<Rightarrow> panic + (string \<times> 'w M2MClient)" where
  "call_for_optional_string lib method args m2m =
     (if Error m2m \<noteq> None then Inr ('''', m2m)
      else case make_request args of
             Inl p \<Rightarrow> Inl p
           | Inr request \<Rightarrow>
               (case Call_optional_string lib method request (Client m2m) of
                  (err, reply, w) \<Rightarrow>
                    Inr ((case reply of None \<Rightarrow> '''' | Some s \<Rightarrow> s),
                         m2m\<lparr>Client := w, Error := err, LastOp := method,
                             calls := calls m2m @ [(method, request, err)]\<rparr>)))"

definition call_for_string_array ::
  "'w rpc \<Rightarrow> string \<Rightarrow> any list \<Rightarrow> 'w M2MClient \<Rightarrow> panic + (string slice \<times> 'w M2MClient)" where
  "call_for_string_array lib method args m2m =
     (if Error m2m \<noteq> None then Inr (None, m2m)
      else case make_request args of
             Inl p \<Rightarrow> Inl p
           | Inr request \<Rightarrow>
               (case Call_string_array lib method request (Client m2m) of
                  (err, reply, w) \<Rightarrow>
                    Inr (reply, m2m\<lparr>Client := w, Error := err, LastOp := method,
                                    calls := calls m2m @ [(method, request, err)]\<rparr>)))"

definition call_for_void ::
  "'w rpc \<Rightarrow> string \<Rightarrow> any list \<Rightarrow> 'w M2MClient \<Rightarrow> panic + (unit \<times> 'w M2MClient)" where
  "call_for_void lib method args m2m =
     (if Error m2m \<noteq> None then Inr ((), m2m)
      else case make_request args of
             Inl p \<Rightarrow> Inl p
           | Inr request \<Rightarrow>
               (case Call_void lib method request (Client m2m) of
                  (err, reply, w) \<Rightarrow>
                    Inr ((), m2m\<lparr>Client := w, Error := err, LastOp := method,
                                 calls := calls m2m @ [(method, request, err)]\<rparr>)))"

section \<open>jsonrpc.go: one wrapper for each method of the API\<close>

definition CliExec :: "'w rpc \<Rightarrow> string \<Rightarrow> 'w M2MClient \<Rightarrow> panic + (string \<times> 'w M2MClient)" where
  "CliExec lib command = call_for_string lib ''cli_exec'' [VString ''command'', VString command]"

definition CliGet ::
  "'w rpc \<Rightarrow> string \<Rightarrow> 'w M2MClient \<Rightarrow> panic + (any slice slice \<times> 'w M2MClient)" where
  "CliGet lib command =
     call_for_array_of_arrays lib ''cli_get'' [VString ''command'', VString command]"

definition CliSet :: "'w rpc \<Rightarrow> string \<Rightarrow> 'w M2MClient \<Rightarrow> panic + (unit \<times> 'w M2MClient)" where
  "CliSet lib command = call_for_void lib ''cli_set'' [VString ''command'', VString command]"

text \<open>\<^verbatim>\<open>data []byte\<close> is passed as \<^verbatim>\<open>string(data)\<close>; both are byte strings here.\<close>

definition WriteFile ::
  "'w rpc \<Rightarrow> string \<Rightarrow> string \<Rightarrow> 'w M2MClient \<Rightarrow> panic + (unit \<times> 'w M2MClient)" where
  "WriteFile lib filename data =
     call_for_void lib ''write_file''
       [VString ''filename'', VString filename, VString ''data'', VString data]"

definition Get ::
  "'w rpc \<Rightarrow> string \<Rightarrow> 'w M2MClient \<Rightarrow> panic + (any slice slice \<times> 'w M2MClient)" where
  "Get lib path = call_for_array_of_arrays lib ''get'' [VString ''path'', VString path]"

definition GetChildren ::
  "'w rpc \<Rightarrow> string \<Rightarrow> 'w M2MClient \<Rightarrow> panic + (string slice \<times> 'w M2MClient)" where
  "GetChildren lib path =
     call_for_string_array lib ''get_children'' [VString ''path'', VString path]"

definition Set_value ::
  "'w rpc \<Rightarrow> string \<Rightarrow> any \<Rightarrow> 'w M2MClient \<Rightarrow> panic + (unit \<times> 'w M2MClient)" where
  "Set_value lib path v =
     call_for_void lib ''set'' [VString ''path'', VString path, VString ''value'', v]"

definition Delete :: "'w rpc \<Rightarrow> string \<Rightarrow> 'w M2MClient \<Rightarrow> panic + (unit \<times> 'w M2MClient)" where
  "Delete lib path = call_for_void lib ''delete'' [VString ''path'', VString path]"

definition Replace :: "'w rpc \<Rightarrow> string \<Rightarrow> 'w M2MClient \<Rightarrow> panic + (unit \<times> 'w M2MClient)" where
  "Replace lib path = call_for_void lib ''replace'' [VString ''path'', VString path]"

definition Commit ::
  "'w rpc \<Rightarrow> string \<Rightarrow> string \<Rightarrow> 'w M2MClient \<Rightarrow> panic + (string \<times> 'w M2MClient)" where
  "Commit lib comment label =
     call_for_optional_string lib ''commit''
       [VString ''comment'', VString comment, VString ''label'', VString label]"

definition CommitReplace ::
  "'w rpc \<Rightarrow> string \<Rightarrow> string \<Rightarrow> 'w M2MClient \<Rightarrow> panic + (string \<times> 'w M2MClient)" where
  "CommitReplace lib comment label =
     call_for_optional_string lib ''commit_replace''
       [VString ''comment'', VString comment, VString ''label'', VString label]"

definition DiscardChanges :: "'w rpc \<Rightarrow> 'w M2MClient \<Rightarrow> panic + (unit \<times> 'w M2MClient)" where
  "DiscardChanges lib = call_for_void lib ''discard_changes'' []"

definition GetChanges ::
  "'w rpc \<Rightarrow> 'w M2MClient \<Rightarrow> panic + ((string \<rightharpoonup> any) option slice \<times> 'w M2MClient)" where
  "GetChanges lib = call_for_array_of_objects lib ''get_changes'' []"

definition GetSchema ::
  "'w rpc \<Rightarrow> string \<Rightarrow> string \<Rightarrow> 'w M2MClient \<Rightarrow>
     panic + ((string \<rightharpoonup> any) option \<times> 'w M2MClient)" where
  "GetSchema lib path fieldnames =
     (if fieldnames \<noteq> ''''
      then call_for_object lib ''get_schema''
             [VString ''path'', VString path, VString ''fields'', VString fieldnames]
      else call_for_object lib ''get_schema'' [VString ''path'', VString path])"

definition GetVersion ::
  "'w rpc \<Rightarrow> 'w M2MClient \<Rightarrow> panic + ((string \<rightharpoonup> any) option \<times> 'w M2MClient)" where
  "GetVersion lib = call_for_object lib ''get_version'' []"

section \<open>Sequences of operations on one client\<close>

text \<open>
  A caller issues the typed operations one after the other on the same client. An
  operation of the public interface is a value of \<open>op\<close>, its result a value of
  \<open>result\<close>, and \<open>exec_op\<close> calls the wrapper of that name.
\<close>

datatype op =
    OpCliExec string
  | OpCliGet string
  | OpCliSet string
  | OpWriteFile string string
  | OpGet string
  | OpGetChildren string
  | OpSet string any
  | OpDelete string
  | OpReplace string
  | OpCommit string string
  | OpCommitReplace string string
  | OpDiscardChanges
  | OpGetChanges
  | OpGetSchema string string
  | OpGetVersion

datatype result =
    RString string
  | RArrayOfArrays "any slice slice"
  | RStringArray "string slice"
  | RObject "(string \<rightharpoonup> any) option"
  | RArrayOfObjects "(string \<rightharpoonup> any) option slice"
  | RVoid

definition returning :: "('a \<Rightarrow> result) \<Rightarrow> panic + ('a \<times> 'm) \<Rightarrow> panic + (result \<times> 'm)" where
  "returning f x = (case x of Inl p \<Rightarrow> Inl p | Inr (r, m2m) \<Rightarrow> Inr (f r, m2m))"

fun exec_op :: "'w rpc \<Rightarrow> op \<Rightarrow> 'w M2MClient \<Rightarrow> panic + (result \<times> 'w M2MClient)" where
  "exec_op lib (OpCliExec command) m2m = returning RString (CliExec lib command m2m)"
| "exec_op lib (OpCliGet command) m2m = returning RArrayOfArrays (CliGet lib command m2m)"
| "exec_op lib (OpCliSet command) m2m = returning (\<lambda>_. RVoid) (CliSet lib command m2m)"
| "exec_op lib (OpWriteFile filename data) m2m =
     returning (\<lambda>_. RVoid) (WriteFile lib filename data m2m)"
| "exec_op lib (OpGet path) m2m = returning RArrayOfArrays (Get lib path m2m)"
| "exec_op lib (OpGetChildren path) m2m = returning RStringArray (GetChildren lib path m2m)"
| "exec_op lib (OpSet path v) m2m = returning (\<lambda>_. RVoid) (Set_value lib path v m2m)"
| "exec_op lib (OpDelete path) m2m = returning (\<lambda>_. RVoid) (Delete lib path m2m)"
| "exec_op lib (OpReplace path) m2m = returning (\<lambda>_. RVoid) (Replace lib path m2m)"
| "exec_op lib (OpCommit comment label) m2m = returning RString (Commit lib comment label m2m)"
| "exec_op lib (OpCommitReplace comment label) m2m =
     returning RString (CommitReplace lib comment label m2m)"
| "exec_op lib OpDiscardChanges m2m = returning (\<lambda>_. RVoid) (DiscardChanges lib m2m)"
| "exec_op lib OpGetChanges m2m = returning RArrayOfObjects (GetChanges lib m2m)"
| "exec_op lib (OpGetSchema path fieldnames) m2m =
     returning RObject (GetSchema lib path fieldnames m2m)"
| "exec_op lib OpGetVersion m2m = returning RObject (GetVersion lib m2m)"

text \<open>The zero value of the result type of each operation, and its JSON-RPC method.\<close>

fun zero_result :: "op \<Rightarrow> result" where
  "zero_result (OpCliExec _) = RString ''''"
| "zero_result (OpCliGet _) = RArrayOfArrays None"
| "zero_result (OpCliSet _) = RVoid"
| "zero_result (OpWriteFile _ _) = RVoid"
| "zero_result (OpGet _) = RArrayOfArrays None"
| "zero_result (OpGetChildren _) = RStringArray None"
| "zero_result (OpSet _ _) = RVoid"
| "zero_result (OpDelete _) = RVoid"
| "zero_result (OpReplace _) = RVoid"
| "zero_result (OpCommit _ _) = RString ''''"
| "zero_result (OpCommitReplace _ _) = RString ''''"
| "zero_result OpDiscardChanges = RVoid"
| "zero_result OpGetChanges = RArrayOfObjects None"
| "zero_result (OpGetSchema _ _) = RObject None"
| "zero_result OpGetVersion = RObject None"

fun method_of :: "op \<Rightarrow> string" where
  "method_of (OpCliExec _) = ''cli_exec''"
| "method_of (OpCliGet _) = ''cli_get''"
| "method_of (OpCliSet _) = ''cli_set''"
| "method_of (OpWriteFile _ _) = ''write_file''"
| "method_of (OpGet _) = ''get''"
| "method_of (OpGetChildren _) = ''get_children''"
| "method_of (OpSet _ _) = ''set''"
| "method_of (OpDelete _) = ''delete''"
| "method_of (OpReplace _) = ''replace''"
| "method_of (OpCommit _ _) = ''commit''"
| "method_of (OpCommitReplace _ _) = ''commit_replace''"
| "method_of OpDiscardChanges = ''discard_changes''"
| "method_of OpGetChanges = ''get_changes''"
| "method_of (OpGetSchema _ _) = ''get_schema''"
| "method_of OpGetVersion = ''get_version''"

fun run_ops :: "'w rpc \<Rightarrow> op list \<Rightarrow> 'w M2MClient \<Rightarrow> panic + (result list \<times> 'w M2MClient)" where
  "run_ops lib [] m2m = Inr ([], m2m)"
| "run_ops lib (x # xs) m2m =
     (case exec_op lib x m2m of
        Inl p \<Rightarrow> Inl p
      | Inr (r, m2m') \<Rightarrow>
          (case run_ops lib xs m2m' of
             Inl p \<Rightarrow> Inl p
           | Inr (rs, m2m'') \<Rightarrow> Inr (r # rs, m2m'')))"

section \<open>ssh.go: credentials and connecting\<close>

record Creds =
  User :: string
  Password :: string
  Keypathname :: string

text \<open>
  Handles of the SSH library (client, session, pipes) are opaque; the model names them
  by numbers. \<open>ssh_PublicKeys\<close> carries the signer that parsing the key file gave.
\<close>

type_synonym handle = nat

datatype AuthMethod =
    ssh_Password string
  | ssh_PublicKeys string

record ClientConfig =
  conf_User :: string
  conf_Auth :: "AuthMethod list"
  conf_Ciphers :: "string list"

record XrSession =
  session :: handle
  stdin :: handle
  stdout :: handle
  ready :: bool

text \<open>
  The file system and the SSH library are outside the program: \<open>env\<close> gives the outcome
  of each call that \<^verbatim>\<open>get_auth\<close> and \<^verbatim>\<open>NewXrSession\<close> make on them, an error message
  on the left or the value on the right.
\<close>

record env =
  ReadFile :: "string \<Rightarrow> error + string"
  ParsePrivateKey :: "string \<Rightarrow> error + string"
  Dial :: "string \<Rightarrow> string \<Rightarrow> ClientConfig \<Rightarrow> error + handle"
  NewSession :: "handle \<Rightarrow> error + handle"
  StdinPipe :: "handle \<Rightarrow> error + handle"
  StdoutPipe :: "handle \<Rightarrow> error + handle"
  Start :: "handle \<Rightarrow> string \<Rightarrow> error option"

text \<open>
  What \<^verbatim>\<open>NewXrSession\<close> did on the network and the scheduler, in order: the calls on
  the SSH library and the start of the goroutine that discards the preamble.
\<close>

datatype event =
    EvDial string ClientConfig
  | EvNewSession
  | EvStdinPipe
  | EvStdoutPipe
  | EvStart string
  | EvGo

definition logged :: "event \<Rightarrow> 'a \<times> event list \<Rightarrow> 'a \<times> event list" where
  "logged ev x = (fst x, ev # snd x)"

definition get_auth :: "env \<Rightarrow> Creds \<Rightarrow> error + AuthMethod list" where
  "get_auth e creds =
     (let auth = (if Password creds \<noteq> '''' then [] @ [ssh_Password (Password creds)] else [])
      in if Keypathname creds \<noteq> '''' then
           (case ReadFile e (Keypathname creds) of
              Inl err \<Rightarrow> Inl (''Can't read private key file: '' @ err)
            | Inr buf \<Rightarrow>
                (case ParsePrivateKey e buf of
                   Inl err \<Rightarrow> Inl (''Can't parse private key: '' @ err)
                 | Inr key \<Rightarrow> Inr (auth @ [ssh_PublicKeys key])))
         else Inr auth)"

definition NewXrSession ::
  "env \<Rightarrow> string \<Rightarrow> Creds \<Rightarrow> string \<Rightarrow> (error + XrSession) \<times> event list" where
  "NewXrSession e host creds cmd =
     (case get_auth e creds of
        Inl err \<Rightarrow> (Inl err, [])
      | Inr auth \<Rightarrow>
          (let sshConfig = \<lparr>conf_User = User creds, conf_Auth = auth,
                            conf_Ciphers = [''aes128-ctr'', ''aes128-cbc'']\<rparr>
           in logged (EvDial host sshConfig)
             (case Dial e ''tcp'' host sshConfig of
                Inl err \<Rightarrow> (Inl (''Can't connect: '' @ err), [])
              | Inr client \<Rightarrow> logged EvNewSession
                 (case NewSession e client of
                    Inl err \<Rightarrow> (Inl (''Can't create session: '' @ err), [])
                  | Inr sess \<Rightarrow> logged EvStdinPipe
                     (case StdinPipe e sess of
                        Inl err \<Rightarrow> (Inl (''Can't create stdin pipe: '' @ err), [])
                      | Inr inp \<Rightarrow> logged EvStdoutPipe
                         (case StdoutPipe e sess of
                            Inl err \<Rightarrow> (Inl (''Can't create stdout pipe: '' @ err), [])
                          | Inr outp \<Rightarrow> logged (EvStart cmd)
                             (case Start e sess cmd of
                                Some err \<Rightarrow> (Inl (''Can't start command: '' @ err), [])
                              | None \<Rightarrow>
                                  (Inr \<lparr>session = sess, stdin = inp, stdout = outp,
                                        ready = False\<rparr>, [EvGo]))))))))"

text \<open>
  \<^verbatim>\<open>jsonrpc2.NewClient\<close> is the codec library's constructor; it is a parameter.
\<close>

definition NewClient ::
  "env \<Rightarrow> (XrSession \<Rightarrow> 'w) \<Rightarrow> string \<Rightarrow> Creds \<Rightarrow> (error + 'w M2MClient) \<times> event list" where
  "NewClient e jsonrpc2_NewClient host creds =
     (case NewXrSession e host creds ''run json_rpc_server'' of
        (Inl err, evs) \<Rightarrow> (Inl err, evs)
      | (Inr xrs, evs) \<Rightarrow>
          (Inr \<lparr>Client = jsonrpc2_NewClient xrs, Error = None, LastOp = '''', calls = []\<rparr>, evs))"

section \<open>ssh.go: the preamble goroutine and the gated stream operations\<close>

text \<open>
  The pipes of the session are outside the program. \<open>streams\<close> gives, for the state
  \<open>'io\<close> of the channel, what a read into a buffer or a write of a buffer returns
  (byte count and error), the buffer after a read, and the new state of the channel.
\<close>

record 'io streams =
  stdout_Read :: "handle \<Rightarrow> string \<Rightarrow> 'io \<Rightarrow> (nat \<times> error option) \<times> string \<times> 'io"
  stdin_Write :: "handle \<Rightarrow> string \<Rightarrow> 'io \<Rightarrow> (nat \<times> error option) \<times> 'io"
  session_Close :: "handle \<Rightarrow> 'io \<Rightarrow> error option \<times> 'io"

datatype stream_op =
    StdoutRead nat
  | StdinWrite string

text \<open>
  The state of the running program around one handle: the handle, whether the
  goroutine started by \<^verbatim>\<open>NewXrSession\<close> has still to run, the message of the panic
  that has terminated the process (if any), the state of the channel, and the
  operations done on the pipes so far, oldest first (with the length of the buffer
  read into, or the bytes written).
\<close>

record 'io process =
  xrs :: XrSession
  preamble_pending :: bool
  crashed :: "string option"
  io :: 'io
  wire :: "stream_op list"

definition spawned :: "XrSession \<Rightarrow> 'io \<Rightarrow> 'io process" where
  "spawned x c = \<lparr>xrs = x, preamble_pending = True, crashed = None, io = c, wire = []\<rparr>"

text \<open>\<^verbatim>\<open>make([]byte, 128)\<close>\<close>

definition preamble_buf :: string where
  "preamble_buf = replicate 128 (CHR 0x00)"

text \<open>
  The body of the goroutine. A panic that no one recovers terminates the program.
\<close>

definition preamble_goroutine :: "'io streams \<Rightarrow> 'io process \<Rightarrow> 'io process" where
  "preamble_goroutine lib s =
     (case stdout_Read lib (stdout (xrs s)) preamble_buf (io s) of
        ((n, err), buf, c) \<Rightarrow>
          (case err of
             Some msg \<Rightarrow>
               s\<lparr>preamble_pending := False, crashed := Some (''Can't read preamble: '' @ msg),
                 io := c, wire := wire s @ [StdoutRead (length preamble_buf)]\<rparr>
           | None \<Rightarrow>
               s\<lparr>xrs := (xrs s)\<lparr>ready := True\<rparr>, preamble_pending := False,
                 io := c, wire := wire s @ [StdoutRead (length preamble_buf)]\<rparr>))"

text \<open>
  \<^verbatim>\<open>time.Sleep(100 * time.Millisecond)\<close>: while the caller sleeps the goroutine may
  run. The flag \<open>b\<close> of the schedule says whether its read completes during this sleep.
\<close>

definition Sleep :: "'io streams \<Rightarrow> bool \<Rightarrow> 'io process \<Rightarrow> 'io process" where
  "Sleep lib b s =
     (if b \<and> preamble_pending s \<and> crashed s = None then preamble_goroutine lib s else s)"

text \<open>
  \<^verbatim>\<open>for !xrs.ready { time.Sleep(...) }\<close> under a schedule, one flag for each sleep.
  \<open>None\<close>: the loop has not ended when the schedule is used up, or the process has
  terminated.
\<close>

fun wait_ready :: "'io streams \<Rightarrow> bool list \<Rightarrow> 'io process \<Rightarrow> 'io process option" where
  "wait_ready lib sched s =
     (if crashed s \<noteq> None then None
      else if ready (xrs s) then Some s
      else (case sched of
              [] \<Rightarrow> None
            | b # rest \<Rightarrow> wait_ready lib rest (Sleep lib b s)))"

declare wait_ready.simps [simp del]

definition Read ::
  "'io streams \<Rightarrow> bool list \<Rightarrow> string \<Rightarrow> 'io process \<Rightarrow>
     ((nat \<times> error option) \<times> string \<times> 'io process) option" where
  "Read lib sched p s =
     (case wait_ready lib sched s of
        None \<Rightarrow> None
      | Some s1 \<Rightarrow>
          (case stdout_Read lib (stdout (xrs s1)) p (io s1) of
             (r, buf, c) \<Rightarrow>
               Some (r, buf, s1\<lparr>io := c, wire := wire s1 @ [StdoutRead (length p)]\<rparr>)))"

definition Write ::
  "'io streams \<Rightarrow> bool list \<Rightarrow> string \<Rightarrow> 'io process \<Rightarrow>
     ((nat \<times> error option) \<times> 'io process) option" where
  "Write lib sched p s =
     (case wait_ready lib sched s of
        None \<Rightarrow> None
      | Some s1 \<Rightarrow>
          (case stdin_Write lib (stdin (xrs s1)) p (io s1) of
             (r, c) \<Rightarrow> Some (r, s1\<lparr>io := c, wire := wire s1 @ [StdinWrite p]\<rparr>)))"

definition Close :: "'io streams \<Rightarrow> 'io process \<Rightarrow> error option \<times> 'io process" where
  "Close lib s =
     (case session_Close lib (session (xrs s)) (io s) of (err, c) \<Rightarrow> (err, s\<lparr>io := c\<rparr>))"

section \<open>The credentials helper of the utility package\<close>

text \<open>
  \<^verbatim>\<open>CredsFromEnv\<close> reads the credentials from the environment; \<^verbatim>\<open>log.Fatal\<close> ends the
  process with the message on the left.
\<close>

definition CredsFromEnv :: "(string \<Rightarrow> string) \<Rightarrow> string + Creds" where
  "CredsFromEnv getenv =
     (let creds = \<lparr>User = getenv ''SSH_USER'', Password = getenv ''SSH_PASSWORD'',
                   Keypathname = getenv ''SSH_KEYFILE''\<rparr>
      in if User creds = '''' then Inl ''SSH_USER environment variable must be set''
         else if Password creds = '''' \<and> Keypathname creds = ''''
         then Inl ''At least one of SSH_PASSWORD and SSH_KEYFILE environment variables must be set''
         else Inr creds)"

section \<open>Notions of the specification\<close>

text \<open>
  The specification speaks of a request built from an ordered sequence of (name, value)
  pairs. \<open>arg_pairs\<close> follows these words: it lays the pairs out as the flat argument
  list that \<^verbatim>\<open>make_request\<close> takes.
\<close>

definition arg_pairs :: "(string \<times> any) list \<Rightarrow> any list" where
  "arg_pairs ps = concat (map (\<lambda>(name, v). [VString name, v]) ps)"

text \<open>
  The invariant of the client, read off the record of calls: before any call the
  client is clean with no last operation; afterwards the last operation and the error
  are those of the most recent call, and every earlier call returned no error.
\<close>

definition latch_inv :: "'w M2MClient \<Rightarrow> bool" where
  "latch_inv m2m =
     (case rev (calls m2m) of
        [] \<Rightarrow> Error m2m = None \<and> LastOp m2m = ''''
      | (method, request, err) # earlier \<Rightarrow>
          LastOp m2m = method \<and> Error m2m = err \<and>
          list_all (\<lambda>(_, _, e). e = None) earlier)"

section \<open>Concrete peers for the instances\<close>

text \<open>
  A stub server whose connection state counts the requests served. It rejects
  \<^verbatim>\<open>delete\<close>; a commit has nothing to commit on the first request, gives revision
  \<^verbatim>\<open>1001\<close> on the second, and finds the configuration locked afterwards.
\<close>

definition stub :: "nat rpc" where
  "stub =
     \<lparr>Call_array_of_arrays = (\<lambda>method request w. (None, Some [Some [VString ''row'']], Suc w)),
      Call_object = (\<lambda>method request w. (None, Some Map.empty, Suc w)),
      Call_array_of_objects = (\<lambda>method request w. (None, Some [], Suc w)),
      Call_string = (\<lambda>method request w. (None, ''ok'', Suc w)),
      Call_optional_string =
        (\<lambda>method request w.
           if w = 0 then (None, None, Suc w)
           else if w = 1 then (None, Some ''1001'', Suc w)
           else (Some ''locked'', None, Suc w)),
      Call_string_array = (\<lambda>method request w. (None, Some [], Suc w)),
      Call_void =
        (\<lambda>method request w.
           if method = ''delete'' then (Some ''rejected'', VNil, Suc w)
           else (None, VNil, Suc w))\<rparr>"

definition client0 :: "nat M2MClient" where
  "client0 = \<lparr>Client = 0, Error = None, LastOp = '''', calls = []\<rparr>"

definition client_rejected :: "nat M2MClient" where
  "client_rejected =
     \<lparr>Client = 2, Error = Some ''rejected'', LastOp = ''delete'',
      calls = [(''set'', [''path'' \<mapsto> VString ''p'', ''value'' \<mapsto> VBool True], None),
               (''delete'', [''path'' \<mapsto> VString ''p''], Some ''rejected'')]\<rparr>"

definition stub_codec :: "XrSession \<Rightarrow> nat" where
  "stub_codec x = 0"

definition stub_creds :: Creds where
  "stub_creds = \<lparr>User = ''admin'', Password = ''secret'', Keypathname = ''''\<rparr>"

definition no_creds :: Creds where
  "no_creds = \<lparr>User = '''', Password = '''', Keypathname = ''''\<rparr>"

definition stub_getenv :: "string \<Rightarrow> string" where
  "stub_getenv name =
     (if name = ''SSH_USER'' then ''admin''
      else if name = ''SSH_PASSWORD'' then ''secret'' else '''')"

text \<open>
  An environment in which stage \<open>k\<close> of the connect fails (1 dial, 2 session, 3 stdin
  pipe, 4 stdout pipe, 5 start) and every other stage succeeds; with \<open>k = 0\<close> the
  connect succeeds.
\<close>

definition failing_env :: "nat \<Rightarrow> env" where
  "failing_env k =
     \<lparr>ReadFile = (\<lambda>path. if path = ''id_rsa'' then Inr ''PEM''
                          else if path = ''notes.txt'' then Inr ''junk''
                          else Inl ''no such file''),
      ParsePrivateKey = (\<lambda>buf. if buf = ''PEM'' then Inr ''signer'' else Inl ''no key found''),
      Dial = (\<lambda>network addr config. if k = 1 then Inl ''timeout'' else Inr 1),
      NewSession = (\<lambda>client. if k = 2 then Inl ''refused'' else Inr 2),
      StdinPipe = (\<lambda>sess. if k = 3 then Inl ''stdin taken'' else Inr 3),
      StdoutPipe = (\<lambda>sess. if k = 4 then Inl ''stdout taken'' else Inr 4),
      Start = (\<lambda>sess cmd. if k = 5 then Some ''exec denied'' else None)\<rparr>"

definition stub_events :: "event list" where
  "stub_events =
     [EvDial ''router:22''
        \<lparr>conf_User = ''admin'', conf_Auth = [ssh_Password ''secret''],
         conf_Ciphers = [''aes128-ctr'', ''aes128-cbc'']\<rparr>,
      EvNewSession, EvStdinPipe, EvStdoutPipe, EvStart ''run json_rpc_server'', EvGo]"

text \<open>
  Stub pipes: the state of the channel is the list of chunks still to arrive on the
  output pipe; a read takes the next chunk, or fails with \<^verbatim>\<open>EOF\<close> when none is left.
\<close>

definition stub_streams :: "(string list) streams" where
  "stub_streams =
     \<lparr>stdout_Read = (\<lambda>h p c. case c of
                        [] \<Rightarrow> ((0, Some ''EOF''), p, [])
                      | chunk # rest \<Rightarrow>
                          ((min (length p) (length chunk), None),
                           take (length p) chunk @ drop (length chunk) p, rest)),
      stdin_Write = (\<lambda>h p c. ((length p, None), c)),
      session_Close = (\<lambda>h c. (None, c))\<rparr>"

definition stub_xrs :: XrSession where
  "stub_xrs = \<lparr>session = 2, stdin = 3, stdout = 4, ready = False\<rparr>"

definition stub_ready :: "(string list) process" where
  "stub_ready = \<lparr>xrs = stub_xrs\<lparr>ready := True\<rparr>, preamble_pending = False, crashed = None,
                 io = [''pong''], wire = [StdoutRead 128]\<rparr>"

section \<open>The request builder\<close>

lemma arg_pairs_simps [simp]:
  "arg_pairs [] = []"
  "arg_pairs ((name, v) # ps) = VString name # v # arg_pairs ps"
  by (simp_all add: arg_pairs_def)

lemma make_request_from_pairs:
  "i = length pre \<Longrightarrow>
   make_request_from (pre @ arg_pairs ps) i request =
     Inr (fold (\<lambda>(name, v) m. m(name \<mapsto> v)) ps request)"
proof (induction ps arbitrary: pre i request)
  case Nil
  then show ?case by (simp add: make_request_from.simps)
next
  case (Cons a ps)
  obtain name v where a: "a = (name, v)" by (cases a)
  have step: "make_request_from (pre @ arg_pairs (a # ps)) i request =
      make_request_from ((pre @ [VString name, v]) @ arg_pairs ps) (i + 2)
        (request(name \<mapsto> v))"
    using Cons.prems a
    by (subst make_request_from.simps) (simp add: nth_append)
  show ?case
    unfolding step using Cons.prems a
    by (subst Cons.IH) simp_all
qed

lemma fold_update_map_of:
  "fold (\<lambda>(name, v) m. m(name \<mapsto> v)) ps request = request ++ map_of (rev ps)"
  by (induction ps arbitrary: request) (auto simp: map_add_upd_left)

lemma make_request_pairs: "make_request (arg_pairs ps) = Inr (map_of (rev ps))"
  using make_request_from_pairs [of 0 "[]" ps Map.empty]
  by (simp add: make_request_def fold_update_map_of)

lemma make_request_args0: "make_request [] = Inr Map.empty"
  by (simp add: make_request_def make_request_from.simps)

lemma make_request_args2: "make_request [VString a, x] = Inr [a \<mapsto> x]"
  by (simp add: make_request_def make_request_from.simps)

lemma make_request_args4:
  "make_request [VString a, x, VString b, y] = Inr [a \<mapsto> x, b \<mapsto> y]"
  by (simp add: make_request_def make_request_from.simps)

lemmas make_request_args = make_request_args0 make_request_args2 make_request_args4

text \<open>The builder does panic on other argument lists: a name without a value, a name
  that is not a string.\<close>

lemma make_request_panics:
  "make_request [VString ''a''] = Inl (IndexOutOfRange 1 1)"
  "make_request [VInt 1, VInt 2] = Inl (TypeAssertion 0)"
  by (simp_all add: make_request_def make_request_from.simps)

text \<open>
  C5, as the code has it. Building a request from the ordered pairs
  \<open>[(a, 1), (b, 2)]\<close> gives the mapping \<open>{a: 1, b: 2}\<close>. The builder makes no check
  of the names: for every list of pairs it returns the mapping in which each name has
  the value of its last pair, so a name given twice keeps the later value and no
  error is raised.
\<close>

theorem make_request_last_wins:
  "make_request (arg_pairs [(''a'', VInt 1), (''b'', VInt 2)]) =
     Inr [''a'' \<mapsto> VInt 1, ''b'' \<mapsto> VInt 2] \<and>
   make_request (arg_pairs ps) = Inr (map_of (rev ps)) \<and>
   make_request (arg_pairs (ps @ [(name, v1)] @ qs @ [(name, v2)])) =
     Inr ((map_of (rev (ps @ [(name, v1)] @ qs)))(name \<mapsto> v2))"
  by (simp add: make_request_pairs) (simp add: make_request_def make_request_from.simps)

text \<open>
  C5 as stated fails: with the name \<open>a\<close> given twice the builder returns a request,
  not an error, and the request holds the second value.
\<close>

theorem duplicate_names_counterexample:
  "\<not> isl (make_request [VString ''a'', VInt 1, VString ''a'', VInt 2]) \<and>
   projr (make_request [VString ''a'', VInt 1, VString ''a'', VInt 2]) ''a'' = Some (VInt 2)"
  by (simp add: make_request_def make_request_from.simps)

section \<open>One operation on a clean and on a faulted client\<close>

lemmas wrapper_defs =
  CliExec_def CliGet_def CliSet_def WriteFile_def Get_def GetChildren_def Set_value_def
  Delete_def Replace_def Commit_def CommitReplace_def DiscardChanges_def GetChanges_def
  GetSchema_def GetVersion_def

lemmas helper_defs =
  call_for_array_of_arrays_def call_for_object_def call_for_array_of_objects_def
  call_for_string_def call_for_optional_string_def call_for_string_array_def
  call_for_void_def

lemmas stub_unfold =
  stub_def client0_def client_rejected_def wrapper_defs helper_defs returning_def
  make_request_args

lemma exec_op_faulted:
  "Error m2m \<noteq> None \<Longrightarrow> exec_op lib x m2m = Inr (zero_result x, m2m)"
  by (cases x) (simp_all add: wrapper_defs helper_defs returning_def)

lemma exec_op_clean:
  "Error m2m = None \<Longrightarrow>
   \<exists>r err w request.
     exec_op lib x m2m =
       Inr (r, m2m\<lparr>Client := w, Error := err, LastOp := method_of x,
                  calls := calls m2m @ [(method_of x, request, err)]\<rparr>)"
  by (cases x)
     (auto simp add: wrapper_defs helper_defs returning_def make_request_args
           split: prod.splits)

text \<open>
  C10. No typed operation panics in the request builder, whatever its arguments and
  whatever the state of the client: each returns a result and a client. On a clean
  client the builder has returned a request, which is the one passed to \<^verbatim>\<open>Call\<close>; on
  a faulted client no call is made.
\<close>

theorem typed_operations_never_panic:
  "\<exists>r m2m' request.
     exec_op lib x m2m = Inr (r, m2m') \<and>
     calls m2m' =
       (if Error m2m = None then calls m2m @ [(method_of x, request, Error m2m')]
        else calls m2m)"
proof (cases "Error m2m = None")
  case True
  from exec_op_clean [OF True, of lib x] obtain r err w request
    where "exec_op lib x m2m =
       Inr (r, m2m\<lparr>Client := w, Error := err, LastOp := method_of x,
                  calls := calls m2m @ [(method_of x, request, err)]\<rparr>)"
    by blast
  with True show ?thesis by simp
next
  case False
  then show ?thesis by (simp add: exec_op_faulted)
qed

section \<open>Sequences of operations\<close>

lemma run_ops_faulted:
  "Error m2m \<noteq> None \<Longrightarrow> run_ops lib xs m2m = Inr (map zero_result xs, m2m)"
  by (induction xs) (simp_all add: exec_op_faulted)

lemma run_ops_append:
  "run_ops lib (xs @ ys) m2m =
     (case run_ops lib xs m2m of
        Inl p \<Rightarrow> Inl p
      | Inr (rs, m) \<Rightarrow>
          (case run_ops lib ys m of
             Inl p \<Rightarrow> Inl p
           | Inr (rs', m') \<Rightarrow> Inr (rs @ rs', m')))"
  by (induction xs arbitrary: m2m) (auto split: sum.splits)

lemma run_ops_returns: "\<exists>rs m2m'. run_ops lib xs m2m = Inr (rs, m2m')"
proof (induction xs arbitrary: m2m)
  case Nil
  show ?case by simp
next
  case (Cons x xs)
  obtain r m1 where x: "exec_op lib x m2m = Inr (r, m1)"
    by (cases "Error m2m = None") (use exec_op_clean [of m2m lib x] in auto,
      simp add: exec_op_faulted)
  from Cons [of m1] obtain rs m2 where "run_ops lib xs m1 = Inr (rs, m2)" by blast
  with x show ?case by simp
qed

text \<open>
  C1. Let the operations \<open>pre\<close> run on a client and leave it clean, and let the next
  operation \<open>opK\<close> leave it with an error. Then whatever operations \<open>post\<close> follow,
  each returns the zero value of its result type, and the client at the end is the
  client as \<open>opK\<close> left it: the same error, the same last operation, which is the
  method of \<open>opK\<close>, and the same record of calls, which ends with the call of \<open>opK\<close>,
  so that no later operation has invoked \<^verbatim>\<open>Call\<close>.
\<close>

theorem latch_once:
  assumes pre: "run_ops lib pre m0 = Inr (rs, m1)"
    and clean: "Error m1 = None"
    and opK: "exec_op lib opK m1 = Inr (r, m2)"
    and failed: "Error m2 \<noteq> None"
  shows "run_ops lib (pre @ opK # post) m0 = Inr (rs @ r # map zero_result post, m2) \<and>
         (\<forall>x. exec_op lib x m2 = Inr (zero_result x, m2)) \<and>
         LastOp m2 = method_of opK \<and>
         (\<exists>request. calls m2 = calls m1 @ [(method_of opK, request, Error m2)])"
proof -
  have seq: "run_ops lib (pre @ opK # post) m0 = Inr (rs @ r # map zero_result post, m2)"
    using pre opK failed by (simp add: run_ops_append run_ops_faulted)
  from exec_op_clean [OF clean, of lib opK] opK
  have "LastOp m2 = method_of opK"
    and "\<exists>request. calls m2 = calls m1 @ [(method_of opK, request, Error m2)]"
    by auto
  with seq failed show ?thesis by (simp add: exec_op_faulted)
qed

text \<open>
  An instance: the stub server accepts \<^verbatim>\<open>set\<close> and rejects \<^verbatim>\<open>delete\<close>; the three
  operations after the delete return zero values and leave the client as the delete
  left it, with two calls on record.
\<close>

theorem latch_once_witness:
  "run_ops stub [OpSet ''p'' (VBool True)] client0 =
     Inr ([RVoid], client0\<lparr>Client := 1, LastOp := ''set'',
            calls := [(''set'', [''path'' \<mapsto> VString ''p'', ''value'' \<mapsto> VBool True], None)]\<rparr>) \<and>
   exec_op stub (OpDelete ''p'')
     (client0\<lparr>Client := 1, LastOp := ''set'',
        calls := [(''set'', [''path'' \<mapsto> VString ''p'', ''value'' \<mapsto> VBool True], None)]\<rparr>) =
     Inr (RVoid, client_rejected) \<and>
   Error client_rejected = Some ''rejected'' \<and>
   run_ops stub [OpSet ''p'' (VBool True), OpDelete ''p'', OpGetChanges, OpCommit ''c'' '''',
                 OpCliExec ''show version''] client0 =
     Inr ([RVoid, RVoid, RArrayOfObjects None, RString '''', RString ''''], client_rejected) \<and>
   LastOp client_rejected = ''delete''"
proof -
  let ?m1 = "client0\<lparr>Client := 1, LastOp := ''set'',
      calls := [(''set'', [''path'' \<mapsto> VString ''p'', ''value'' \<mapsto> VBool True], None)]\<rparr>"
  have pre: "run_ops stub [OpSet ''p'' (VBool True)] client0 = Inr ([RVoid], ?m1)"
    by (simp add: stub_unfold)
  have clean: "Error ?m1 = None"
    by (simp add: client0_def)
  have opK: "exec_op stub (OpDelete ''p'') ?m1 = Inr (RVoid, client_rejected)"
    by (simp add: stub_unfold)
  have failed: "Error client_rejected \<noteq> None"
    by (simp add: client_rejected_def)
  from latch_once [OF pre clean opK failed,
      of "[OpGetChanges, OpCommit ''c'' '''', OpCliExec ''show version'']"]
  have "run_ops stub [OpSet ''p'' (VBool True), OpDelete ''p'', OpGetChanges,
      OpCommit ''c'' '''', OpCliExec ''show version''] client0 =
     Inr ([RVoid, RVoid, RArrayOfObjects None, RString '''', RString ''''], client_rejected)"
    and "LastOp client_rejected = ''delete''"
    by simp_all
  with pre opK show ?thesis by (simp add: client_rejected_def)
qed

section \<open>The invariant of the latched error\<close>

lemma exec_op_inv:
  assumes "latch_inv m" and "exec_op lib x m = Inr (r, m')"
  shows "latch_inv m'"
proof (cases "Error m = None")
  case True
  from exec_op_clean [OF True, of lib x] assms(2)
  obtain err w request where m': "m' = m\<lparr>Client := w, Error := err, LastOp := method_of x,
      calls := calls m @ [(method_of x, request, err)]\<rparr>"
    by auto
  from assms(1) True have "list_all (\<lambda>(_, _, e). e = None) (rev (calls m))"
    by (auto simp: latch_inv_def split: list.splits)
  with m' show ?thesis by (simp add: latch_inv_def)
next
  case False
  with assms show ?thesis by (simp add: exec_op_faulted)
qed

lemma run_ops_inv:
  "latch_inv m \<Longrightarrow> run_ops lib xs m = Inr (rs, m') \<Longrightarrow> latch_inv m'"
proof (induction xs arbitrary: m rs)
  case Nil
  then show ?case by simp
next
  case (Cons x xs)
  from Cons.prems(2) obtain r m1 rs1
    where x: "exec_op lib x m = Inr (r, m1)" and xs: "run_ops lib xs m1 = Inr (rs1, m')"
    by (auto split: sum.splits)
  from exec_op_inv [OF Cons.prems(1) x] have "latch_inv m1" .
  then show ?case using xs by (rule Cons.IH)
qed

lemma NewClient_inv: "NewClient e mk host creds = (Inr m0, evs) \<Longrightarrow> latch_inv m0"
  by (auto simp: NewClient_def latch_inv_def split: prod.splits sum.splits)

lemma stub_NewClient:
  "NewClient (failing_env 0) stub_codec ''router:22'' stub_creds = (Inr client0, stub_events)"
  by (simp add: NewClient_def NewXrSession_def get_auth_def failing_env_def stub_codec_def
      stub_creds_def client0_def logged_def stub_events_def)

text \<open>
  C4, as the code has it. Take any client reached from a new client by typed
  operations. Once its error is set, no further operation changes the error or the
  last operation. The last operation is empty exactly as long as no call has been
  sent; after that it is the method of the most recent call sent, whether that call
  failed or not, and the error is the error that this call returned, every earlier
  call having returned none. So on a faulted client the last operation names the
  method that produced the latched error, and on a clean client it names the last
  successful call.
\<close>

theorem latched_error_invariant:
  assumes new: "NewClient e mk host creds = (Inr m0, evs)"
    and run: "run_ops lib xs m0 = Inr (rs, m)"
    and more: "run_ops lib ys m = Inr (rs', m')"
  shows "(Error m \<noteq> None \<longrightarrow> Error m' = Error m \<and> LastOp m' = LastOp m) \<and>
         (calls m = [] \<longrightarrow> Error m = None \<and> LastOp m = '''') \<and>
         (calls m \<noteq> [] \<longrightarrow>
            LastOp m = fst (last (calls m)) \<and> Error m = snd (snd (last (calls m))) \<and>
            (\<forall>c \<in> set (butlast (calls m)). snd (snd c) = None))"
proof -
  have inv: "latch_inv m"
    using NewClient_inv [OF new] run by (rule run_ops_inv)
  have stays: "Error m \<noteq> None \<longrightarrow> Error m' = Error m \<and> LastOp m' = LastOp m"
    using more by (auto simp: run_ops_faulted)
  have empty: "calls m = [] \<longrightarrow> Error m = None \<and> LastOp m = ''''"
    using inv by (auto simp: latch_inv_def split: list.splits)
  have nonempty: "calls m \<noteq> [] \<longrightarrow>
            LastOp m = fst (last (calls m)) \<and> Error m = snd (snd (last (calls m))) \<and>
            (\<forall>c \<in> set (butlast (calls m)). snd (snd c) = None)"
  proof
    assume ne: "calls m \<noteq> []"
    then obtain cs c where cs: "calls m = cs @ [c]"
      by (metis append_butlast_last_id)
    obtain meth req err where c: "c = (meth, req, err)" by (cases c)
    from inv cs c show "LastOp m = fst (last (calls m)) \<and>
        Error m = snd (snd (last (calls m))) \<and>
        (\<forall>c \<in> set (butlast (calls m)). snd (snd c) = None)"
      by (auto simp: latch_inv_def list_all_iff)
  qed
  from stays empty nonempty show ?thesis by blast
qed

text \<open>
  An instance: a new client on the stub server runs \<^verbatim>\<open>set\<close> and the rejected
  \<^verbatim>\<open>delete\<close>; two more operations leave error and last operation as they were, and
  these are the error and the method of the last call on record.
\<close>

theorem latched_error_invariant_witness:
  "NewClient (failing_env 0) stub_codec ''router:22'' stub_creds = (Inr client0, stub_events) \<and>
   run_ops stub [OpSet ''p'' (VBool True), OpDelete ''p''] client0 =
     Inr ([RVoid, RVoid], client_rejected) \<and>
   run_ops stub [OpGetChanges, OpCommit ''c'' ''''] client_rejected =
     Inr ([RArrayOfObjects None, RString ''''], client_rejected) \<and>
   calls client_rejected \<noteq> [] \<and>
   LastOp client_rejected = fst (last (calls client_rejected)) \<and>
   Error client_rejected = snd (snd (last (calls client_rejected))) \<and>
   map (\<lambda>c. snd (snd c)) (butlast (calls client_rejected)) = [None]"
proof -
  note new = stub_NewClient
  have run: "run_ops stub [OpSet ''p'' (VBool True), OpDelete ''p''] client0 =
      Inr ([RVoid, RVoid], client_rejected)"
    by (simp add: stub_unfold)
  have more: "run_ops stub [OpGetChanges, OpCommit ''c'' ''''] client_rejected =
      Inr ([RArrayOfObjects None, RString ''''], client_rejected)"
    by (simp add: stub_unfold)
  have sent: "calls client_rejected \<noteq> []"
    by (simp add: client_rejected_def)
  have earlier: "map (\<lambda>c. snd (snd c)) (butlast (calls client_rejected)) = [None]"
    by (simp add: client_rejected_def)
  from latched_error_invariant [OF new run more] sent new run more earlier
  show ?thesis by blast
qed

text \<open>
  C4 as stated fails: after one successful call on a new client the error is still
  empty, yet the last operation is the method of that call, not the empty string.
\<close>

theorem last_operation_counterexample:
  "fst (NewClient (failing_env 0) stub_codec ''router:22'' stub_creds) = Inr client0 \<and>
   \<not> isl (run_ops stub [OpCliExec ''show version''] client0) \<and>
   Error (snd (projr (run_ops stub [OpCliExec ''show version''] client0))) = None \<and>
   LastOp (snd (projr (run_ops stub [OpCliExec ''show version''] client0))) = ''cli_exec''"
  by (simp add: stub_NewClient) (simp add: stub_unfold)

section \<open>Commit without a new revision\<close>

text \<open>
  C6. On a clean client, when the call of \<^verbatim>\<open>commit\<close> (or of \<^verbatim>\<open>commit_replace\<close>)
  returns no error and leaves the reply pointer nil, the operation returns the empty
  string and the client stays clean. When the call returns an error, the client
  latches that error. The two outcomes differ in the error of the client.
\<close>

theorem commit_absent_revision:
  assumes clean: "Error m = None"
  shows
    "(Call_optional_string lib ''commit''
        [''comment'' \<mapsto> VString comment, ''label'' \<mapsto> VString label] (Client m) =
          (None, None, w) \<longrightarrow>
      (\<exists>m'. Commit lib comment label m = Inr ('''', m') \<and> Error m' = None)) \<and>
     (Call_optional_string lib ''commit_replace''
        [''comment'' \<mapsto> VString comment, ''label'' \<mapsto> VString label] (Client m) =
          (None, None, w) \<longrightarrow>
      (\<exists>m'. CommitReplace lib comment label m = Inr ('''', m') \<and> Error m' = None)) \<and>
     (Call_optional_string lib ''commit''
        [''comment'' \<mapsto> VString comment, ''label'' \<mapsto> VString label] (Client m) =
          (Some err, reply, w) \<longrightarrow>
      (\<exists>r m'. Commit lib comment label m = Inr (r, m') \<and> Error m' = Some err)) \<and>
     (Call_optional_string lib ''commit_replace''
        [''comment'' \<mapsto> VString comment, ''label'' \<mapsto> VString label] (Client m) =
          (Some err, reply, w) \<longrightarrow>
      (\<exists>r m'. CommitReplace lib comment label m = Inr (r, m') \<and> Error m' = Some err))"
  using clean
  by (simp add: Commit_def CommitReplace_def call_for_optional_string_def make_request_args4)

text \<open>
  An instance: on the stub server the first request answers a commit with no
  revision, and a request after the second finds the configuration locked.
\<close>

theorem commit_absent_revision_witness:
  "Error client0 = None \<and>
   Call_optional_string stub ''commit'' [''comment'' \<mapsto> VString ''c'', ''label'' \<mapsto> VString ''l'']
     (Client client0) = (None, None, 1) \<and>
   (\<exists>m'. Commit stub ''c'' ''l'' client0 = Inr ('''', m') \<and> Error m' = None) \<and>
   (\<exists>m'. CommitReplace stub ''c'' ''l'' client0 = Inr ('''', m') \<and> Error m' = None) \<and>
   Call_optional_string stub ''commit'' [''comment'' \<mapsto> VString ''c'', ''label'' \<mapsto> VString ''l'']
     (Client (client0\<lparr>Client := 2\<rparr>)) = (Some ''locked'', None, 3) \<and>
   (\<exists>r m'. Commit stub ''c'' ''l'' (client0\<lparr>Client := 2\<rparr>) = Inr (r, m') \<and>
            Error m' = Some ''locked'') \<and>
   (\<exists>r m'. CommitReplace stub ''c'' ''l'' (client0\<lparr>Client := 2\<rparr>) = Inr (r, m') \<and>
            Error m' = Some ''locked'')"
proof -
  have clean0: "Error client0 = None" and clean2: "Error (client0\<lparr>Client := 2\<rparr>) = None"
    by (simp_all add: client0_def)
  have absent: "Call_optional_string stub meth request (Client client0) = (None, None, 1)"
    for meth request
    by (simp add: stub_def client0_def)
  have failing: "Call_optional_string stub meth request (Client (client0\<lparr>Client := 2\<rparr>)) =
      (Some ''locked'', None, 3)" for meth request
    by (simp add: stub_def client0_def)
  from commit_absent_revision [OF clean0, of stub "''c''" "''l''" 1 "''locked''" None]
       commit_absent_revision [OF clean2, of stub "''c''" "''l''" 3 "''locked''" None]
  show ?thesis
    unfolding absent failing using clean0 by simp
qed

section \<open>Connecting\<close>

text \<open>
  C8. When \<^verbatim>\<open>get_auth\<close> returns a list, the list holds the password method exactly
  when the password is not empty (and no password method for another password), and
  a public-key method exactly when the key path is not empty; with both present, the
  list is the password method followed by the public-key method. When the key path is
  not empty and the key file cannot be read, or cannot be parsed, the connect fails
  with an error that wraps the cause, before any call on the SSH library.
\<close>

theorem get_auth_methods:
  "(get_auth e creds = Inr auth \<longrightarrow>
      (ssh_Password (Password creds) \<in> set auth) = (Password creds \<noteq> '''') \<and>
      (\<forall>pw. ssh_Password pw \<in> set auth \<longrightarrow> pw = Password creds) \<and>
      (\<exists>key. ssh_PublicKeys key \<in> set auth) = (Keypathname creds \<noteq> '''') \<and>
      (Password creds \<noteq> '''' \<and> Keypathname creds \<noteq> '''' \<longrightarrow>
         (\<exists>key. auth = [ssh_Password (Password creds), ssh_PublicKeys key]))) \<and>
   (Keypathname creds \<noteq> '''' \<and> ReadFile e (Keypathname creds) = Inl err \<longrightarrow>
      NewXrSession e host creds cmd = (Inl (''Can't read private key file: '' @ err), [])) \<and>
   (Keypathname creds \<noteq> '''' \<and> ReadFile e (Keypathname creds) = Inr buf \<and>
    ParsePrivateKey e buf = Inl err \<longrightarrow>
      NewXrSession e host creds cmd = (Inl (''Can't parse private key: '' @ err), []))"
  by (auto simp: get_auth_def NewXrSession_def Let_def split: sum.splits if_splits)

text \<open>
  An instance: password and a readable key give both methods in order; a missing key
  file and a file that holds no key each make the connect fail.
\<close>

theorem get_auth_methods_witness:
  "get_auth (failing_env 0) \<lparr>User = ''admin'', Password = ''secret'', Keypathname = ''id_rsa''\<rparr> =
     Inr [ssh_Password ''secret'', ssh_PublicKeys ''signer''] \<and>
   NewXrSession (failing_env 0) ''router:22''
     \<lparr>User = ''admin'', Password = ''secret'', Keypathname = ''missing''\<rparr> ''run'' =
     (Inl ''Can't read private key file: no such file'', []) \<and>
   NewXrSession (failing_env 0) ''router:22''
     \<lparr>User = ''admin'', Password = ''secret'', Keypathname = ''notes.txt''\<rparr> ''run'' =
     (Inl ''Can't parse private key: no key found'', [])"
proof -
  let ?both = "\<lparr>User = ''admin'', Password = ''secret'', Keypathname = ''id_rsa''\<rparr>"
  let ?missing = "\<lparr>User = ''admin'', Password = ''secret'', Keypathname = ''missing''\<rparr>"
  let ?junk = "\<lparr>User = ''admin'', Password = ''secret'', Keypathname = ''notes.txt''\<rparr>"
  have built: "get_auth (failing_env 0) ?both =
      Inr [ssh_Password ''secret'', ssh_PublicKeys ''signer'']"
    by (simp add: get_auth_def failing_env_def)
  have unreadable: "Keypathname ?missing \<noteq> '''' \<and>
      ReadFile (failing_env 0) (Keypathname ?missing) = Inl ''no such file''"
    by (simp add: failing_env_def)
  have unparsable: "Keypathname ?junk \<noteq> '''' \<and>
      ReadFile (failing_env 0) (Keypathname ?junk) = Inr ''junk'' \<and>
      ParsePrivateKey (failing_env 0) ''junk'' = Inl ''no key found''"
    by (simp add: failing_env_def)
  from get_auth_methods [where e = "failing_env 0" and creds = ?both
        and auth = "[ssh_Password ''secret'', ssh_PublicKeys ''signer'']"] built
  have "ssh_Password (Password ?both) \<in> set [ssh_Password ''secret'', ssh_PublicKeys ''signer'']"
    by simp
  moreover
  from get_auth_methods [where e = "failing_env 0" and creds = ?missing
        and err = "''no such file''" and host = "''router:22''" and cmd = "''run''"]
    unreadable
  have "NewXrSession (failing_env 0) ''router:22'' ?missing ''run'' =
      (Inl ''Can't read private key file: no such file'', [])"
    by simp
  moreover
  from get_auth_methods [where e = "failing_env 0" and creds = ?junk
        and err = "''no key found''" and host = "''router:22''" and cmd = "''run''"
        and buf = "''junk''"] unparsable
  have "NewXrSession (failing_env 0) ''router:22'' ?junk ''run'' =
      (Inl ''Can't parse private key: no key found'', [])"
    by simp
  ultimately show ?thesis using built by simp
qed

text \<open>
  C9. With the method list built, a failure of the dial, of the creation of the
  session, of either pipe, or of the start of the command makes the connect return an
  error and no handle; the message is a prefix proper to the stage followed by the
  description of the cause, nothing after the failing stage is attempted, and the
  messages of different stages differ whatever the causes are.
\<close>

theorem connect_stage_errors:
  assumes auth: "get_auth e creds = Inr auth"
    and cfg: "cfg = \<lparr>conf_User = User creds, conf_Auth = auth,
                     conf_Ciphers = [''aes128-ctr'', ''aes128-cbc'']\<rparr>"
  shows
    "(Dial e ''tcp'' host cfg = Inl err \<longrightarrow>
        NewXrSession e host creds cmd =
          (Inl (''Can't connect: '' @ err), [EvDial host cfg])) \<and>
     (Dial e ''tcp'' host cfg = Inr client \<and> NewSession e client = Inl err \<longrightarrow>
        NewXrSession e host creds cmd =
          (Inl (''Can't create session: '' @ err), [EvDial host cfg, EvNewSession])) \<and>
     (Dial e ''tcp'' host cfg = Inr client \<and> NewSession e client = Inr sess \<and>
      StdinPipe e sess = Inl err \<longrightarrow>
        NewXrSession e host creds cmd =
          (Inl (''Can't create stdin pipe: '' @ err),
           [EvDial host cfg, EvNewSession, EvStdinPipe])) \<and>
     (Dial e ''tcp'' host cfg = Inr client \<and> NewSession e client = Inr sess \<and>
      StdinPipe e sess = Inr inp \<and> StdoutPipe e sess = Inl err \<longrightarrow>
        NewXrSession e host creds cmd =
          (Inl (''Can't create stdout pipe: '' @ err),
           [EvDial host cfg, EvNewSession, EvStdinPipe, EvStdoutPipe])) \<and>
     (Dial e ''tcp'' host cfg = Inr client \<and> NewSession e client = Inr sess \<and>
      StdinPipe e sess = Inr inp \<and> StdoutPipe e sess = Inr outp \<and>
      Start e sess cmd = Some err \<longrightarrow>
        NewXrSession e host creds cmd =
          (Inl (''Can't start command: '' @ err),
           [EvDial host cfg, EvNewSession, EvStdinPipe, EvStdoutPipe, EvStart cmd])) \<and>
     distinct [''Can't connect: '' @ c1, ''Can't create session: '' @ c2,
               ''Can't create stdin pipe: '' @ c3, ''Can't create stdout pipe: '' @ c4,
               ''Can't start command: '' @ c5]"
  using auth cfg by (simp add: NewXrSession_def logged_def)

text \<open>An instance for each stage, in the environment where that stage fails.\<close>

theorem connect_stage_errors_witness:
  "fst (NewXrSession (failing_env 1) ''router:22'' stub_creds ''run'') =
     Inl ''Can't connect: timeout'' \<and>
   fst (NewXrSession (failing_env 2) ''router:22'' stub_creds ''run'') =
     Inl ''Can't create session: refused'' \<and>
   fst (NewXrSession (failing_env 3) ''router:22'' stub_creds ''run'') =
     Inl ''Can't create stdin pipe: stdin taken'' \<and>
   fst (NewXrSession (failing_env 4) ''router:22'' stub_creds ''run'') =
     Inl ''Can't create stdout pipe: stdout taken'' \<and>
   fst (NewXrSession (failing_env 5) ''router:22'' stub_creds ''run'') =
     Inl ''Can't start command: exec denied''"
proof -
  let ?cfg = "\<lparr>conf_User = User stub_creds, conf_Auth = [ssh_Password ''secret''],
               conf_Ciphers = [''aes128-ctr'', ''aes128-cbc'']\<rparr>"
  have auth: "get_auth (failing_env k) stub_creds = Inr [ssh_Password ''secret'']" for k
    by (simp add: get_auth_def stub_creds_def)
  have s1: "Dial (failing_env 1) ''tcp'' ''router:22'' ?cfg = Inl ''timeout''"
    by (simp add: failing_env_def)
  have s2: "Dial (failing_env 2) ''tcp'' ''router:22'' ?cfg = Inr 1 \<and>
      NewSession (failing_env 2) 1 = Inl ''refused''"
    by (simp add: failing_env_def)
  have s3: "Dial (failing_env 3) ''tcp'' ''router:22'' ?cfg = Inr 1 \<and>
      NewSession (failing_env 3) 1 = Inr 2 \<and> StdinPipe (failing_env 3) 2 = Inl ''stdin taken''"
    by (simp add: failing_env_def)
  have s4: "Dial (failing_env 4) ''tcp'' ''router:22'' ?cfg = Inr 1 \<and>
      NewSession (failing_env 4) 1 = Inr 2 \<and> StdinPipe (failing_env 4) 2 = Inr 3 \<and>
      StdoutPipe (failing_env 4) 2 = Inl ''stdout taken''"
    by (simp add: failing_env_def)
  have s5: "Dial (failing_env 5) ''tcp'' ''router:22'' ?cfg = Inr 1 \<and>
      NewSession (failing_env 5) 1 = Inr 2 \<and> StdinPipe (failing_env 5) 2 = Inr 3 \<and>
      StdoutPipe (failing_env 5) 2 = Inr 4 \<and> Start (failing_env 5) 2 ''run'' = Some ''exec denied''"
    by (simp add: failing_env_def)
  from connect_stage_errors [OF auth [of 1] refl, where host = "''router:22''"
      and cmd = "''run''" and client = 1 and sess = 2 and inp = 3 and outp = 4
      and err = "''timeout''"] s1
  have "fst (NewXrSession (failing_env 1) ''router:22'' stub_creds ''run'') =
      Inl ''Can't connect: timeout''"
    by simp
  moreover from connect_stage_errors [OF auth [of 2] refl, where host = "''router:22''"
      and cmd = "''run''" and client = 1 and sess = 2 and inp = 3 and outp = 4
      and err = "''refused''"] s2
  have "fst (NewXrSession (failing_env 2) ''router:22'' stub_creds ''run'') =
      Inl ''Can't create session: refused''"
    by simp
  moreover from connect_stage_errors [OF auth [of 3] refl, where host = "''router:22''"
      and cmd = "''run''" and client = 1 and sess = 2 and inp = 3 and outp = 4
      and err = "''stdin taken''"] s3
  have "fst (NewXrSession (failing_env 3) ''router:22'' stub_creds ''run'') =
      Inl ''Can't create stdin pipe: stdin taken''"
    by simp
  moreover from connect_stage_errors [OF auth [of 4] refl, where host = "''router:22''"
      and cmd = "''run''" and client = 1 and sess = 2 and inp = 3 and outp = 4
      and err = "''stdout taken''"] s4
  have "fst (NewXrSession (failing_env 4) ''router:22'' stub_creds ''run'') =
      Inl ''Can't create stdout pipe: stdout taken''"
    by simp
  moreover from connect_stage_errors [OF auth [of 5] refl, where host = "''router:22''"
      and cmd = "''run''" and client = 1 and sess = 2 and inp = 3 and outp = 4
      and err = "''exec denied''"] s5
  have "fst (NewXrSession (failing_env 5) ''router:22'' stub_creds ''run'') =
      Inl ''Can't start command: exec denied''"
    by simp
  ultimately show ?thesis by simp
qed

text \<open>
  C3, as the code has it. The connect does not validate the credentials. With
  password and key path both empty, \<^verbatim>\<open>get_auth\<close> returns the empty method list and no
  error; and whenever \<^verbatim>\<open>get_auth\<close> returns a list, the first thing the connect does
  is the dial, with the user as given (empty or not) and with that list. The check
  that the user is not empty and that a password or a key path is present is made by
  \<^verbatim>\<open>CredsFromEnv\<close>: the credentials it returns satisfy both.
\<close>

theorem credentials_not_validated_by_connect:
  "(Password creds = '''' \<and> Keypathname creds = '''' \<longrightarrow> get_auth e creds = Inr []) \<and>
   (get_auth e creds = Inr auth \<longrightarrow>
      (\<exists>res evs. NewXrSession e host creds cmd =
         (res, EvDial host \<lparr>conf_User = User creds, conf_Auth = auth,
                            conf_Ciphers = [''aes128-ctr'', ''aes128-cbc'']\<rparr> # evs))) \<and>
   (CredsFromEnv getenv = Inr creds \<longrightarrow>
      User creds \<noteq> '''' \<and> (Password creds \<noteq> '''' \<or> Keypathname creds \<noteq> ''''))"
  by (auto simp: get_auth_def NewXrSession_def logged_def CredsFromEnv_def Let_def
      split: if_splits)

text \<open>
  An instance: the empty credentials reach the dial, and the credentials read from an
  environment that sets user and password pass the check of the helper.
\<close>

theorem credentials_not_validated_by_connect_witness:
  "get_auth (failing_env 0) no_creds = Inr [] \<and>
   (\<exists>res evs. NewXrSession (failing_env 0) ''router:22'' no_creds ''run json_rpc_server'' =
      (res, EvDial ''router:22''
              \<lparr>conf_User = '''', conf_Auth = [],
               conf_Ciphers = [''aes128-ctr'', ''aes128-cbc'']\<rparr> # evs)) \<and>
   CredsFromEnv stub_getenv = Inr stub_creds \<and>
   User stub_creds = ''admin'' \<and> Password stub_creds = ''secret''"
proof -
  have empty: "Password no_creds = '''' \<and> Keypathname no_creds = ''''"
    by (simp add: no_creds_def)
  have env: "CredsFromEnv stub_getenv = Inr stub_creds"
    by (simp add: CredsFromEnv_def stub_getenv_def stub_creds_def)
  from credentials_not_validated_by_connect [where creds = no_creds and e = "failing_env 0"
      and auth = "[]" and host = "''router:22''" and cmd = "''run json_rpc_server''"] empty
  have a: "get_auth (failing_env 0) no_creds = Inr []"
    and b: "\<exists>res evs. NewXrSession (failing_env 0) ''router:22'' no_creds
        ''run json_rpc_server'' =
      (res, EvDial ''router:22''
              \<lparr>conf_User = User no_creds, conf_Auth = [],
               conf_Ciphers = [''aes128-ctr'', ''aes128-cbc'']\<rparr> # evs)"
    by simp_all
  from credentials_not_validated_by_connect [where creds = stub_creds
      and getenv = stub_getenv] env
  have c: "User stub_creds \<noteq> '''' \<and>
      (Password stub_creds \<noteq> '''' \<or> Keypathname stub_creds \<noteq> '''')"
    by simp
  from a b c env show ?thesis by (simp add: no_creds_def stub_creds_def)
qed

text \<open>
  C3 as stated fails: with user, password and key path all empty, and a peer that
  accepts, the connect returns a handle, and the first thing it did was the dial.
\<close>

theorem empty_credentials_counterexample:
  "\<not> isl (fst (NewXrSession (failing_env 0) ''router:22''
              \<lparr>User = '''', Password = '''', Keypathname = ''''\<rparr> ''run json_rpc_server'')) \<and>
   hd (snd (NewXrSession (failing_env 0) ''router:22''
              \<lparr>User = '''', Password = '''', Keypathname = ''''\<rparr> ''run json_rpc_server'')) =
     EvDial ''router:22''
       \<lparr>conf_User = '''', conf_Auth = [], conf_Ciphers = [''aes128-ctr'', ''aes128-cbc'']\<rparr>"
  by (simp add: NewXrSession_def get_auth_def failing_env_def logged_def)

section \<open>The readiness gate\<close>

lemma NewXrSession_not_ready:
  "NewXrSession e host creds cmd = (Inr x, evs) \<Longrightarrow> \<not> ready x"
  by (auto simp: NewXrSession_def logged_def Let_def split: sum.splits option.splits)

lemma stub_NewXrSession:
  "NewXrSession (failing_env 0) ''router:22'' stub_creds ''run json_rpc_server'' =
     (Inr stub_xrs, stub_events)"
  by (simp add: NewXrSession_def get_auth_def failing_env_def stub_creds_def stub_xrs_def
      logged_def stub_events_def)

lemma spawned_simps [simp]:
  "xrs (spawned x c) = x" "preamble_pending (spawned x c)" "crashed (spawned x c) = None"
  "io (spawned x c) = c" "wire (spawned x c) = []"
  by (simp_all add: spawned_def)

lemma preamble_goroutine_not_pending [simp]:
  "\<not> preamble_pending (preamble_goroutine lib s)"
  by (auto simp: preamble_goroutine_def split: prod.splits option.splits)

lemma preamble_goroutine_ready:
  "crashed s = None \<Longrightarrow> crashed (preamble_goroutine lib s) = None \<Longrightarrow>
   ready (xrs (preamble_goroutine lib s))"
  by (auto simp: preamble_goroutine_def split: prod.splits option.splits)

lemma preamble_goroutine_fields:
  "wire (preamble_goroutine lib s) = wire s @ [StdoutRead 128]"
  "stdout (xrs (preamble_goroutine lib s)) = stdout (xrs s)"
  "stdin (xrs (preamble_goroutine lib s)) = stdin (xrs s)"
  by (auto simp: preamble_goroutine_def preamble_buf_def split: prod.splits option.splits)

text \<open>
  On a handle whose goroutine has still to run, the loop ends exactly when the
  goroutine is scheduled during one of the sleeps and its read succeeds.
\<close>

lemma wait_ready_fresh:
  assumes "\<not> ready (xrs s)" and "preamble_pending s" and "crashed s = None"
  shows "wait_ready lib sched s =
     (if True \<in> set sched \<and> crashed (preamble_goroutine lib s) = None
      then Some (preamble_goroutine lib s) else None)"
  using assms
proof (induction sched)
  case Nil
  then show ?case by (simp add: wait_ready.simps)
next
  case (Cons b sched)
  show ?case
  proof (cases b)
    case True
    show ?thesis
      using True Cons.prems preamble_goroutine_ready [of s lib]
      by (subst wait_ready.simps) (auto simp: Sleep_def wait_ready.simps)
  next
    case False
    then show ?thesis
      using Cons by (subst wait_ready.simps) (simp add: Sleep_def)
  qed
qed

lemma Sleep_idle: "\<not> preamble_pending s \<Longrightarrow> fold (Sleep lib) bs s = s"
  by (induction bs) (simp_all add: Sleep_def)

lemma Sleep_before:
  assumes "preamble_pending s" and "crashed s = None"
  shows "fold (Sleep lib) bs s = (if True \<in> set bs then preamble_goroutine lib s else s)"
  using assms
proof (induction bs)
  case Nil
  then show ?case by simp
next
  case (Cons b bs)
  show ?case
  proof (cases b)
    case True
    with Cons.prems have "Sleep lib b s = preamble_goroutine lib s"
      by (simp add: Sleep_def)
    with True show ?thesis by (simp add: Sleep_idle)
  next
    case False
    then have "Sleep lib b s = s" by (simp add: Sleep_def)
    with False Cons show ?thesis by simp
  qed
qed

lemma wait_ready_after_connect:
  assumes nr: "\<not> ready x"
  shows "wait_ready lib sched (fold (Sleep lib) before (spawned x c)) =
     (if True \<in> set (before @ sched) \<and> crashed (preamble_goroutine lib (spawned x c)) = None
      then Some (preamble_goroutine lib (spawned x c)) else None)"
proof (cases "True \<in> set before")
  case True
  then have s: "fold (Sleep lib) before (spawned x c) = preamble_goroutine lib (spawned x c)"
    by (simp add: Sleep_before)
  show ?thesis
    unfolding s using True
    by (subst wait_ready.simps) (auto simp: preamble_goroutine_ready)
next
  case False
  then have s: "fold (Sleep lib) before (spawned x c) = spawned x c"
    by (simp add: Sleep_before)
  show ?thesis
    unfolding s using False nr by (simp add: wait_ready_fresh)
qed

lemma stub_preamble:
  "preamble_goroutine stub_streams (spawned stub_xrs [''banner'', ''pong'']) = stub_ready"
  by (simp add: preamble_goroutine_def stub_streams_def stub_xrs_def spawned_def
      stub_ready_def preamble_buf_def)

lemmas stub_streams_unfold =
  Read_def Write_def wait_ready.simps Sleep_def preamble_goroutine_def preamble_buf_def
  stub_streams_def stub_xrs_def stub_ready_def spawned_def

text \<open>
  C7. Take the handle that a successful connect returns, let any time pass before the
  caller issues a read or a write (the sleeps \<open>before\<close>), and let the call poll under
  any schedule \<open>sched\<close>. If the call returns, the goroutine has run during one of
  these sleeps, the handle is ready, the operations done on the pipes are the read of
  the preamble (into 128 bytes) followed by this one operation, and the byte count,
  the error and the buffer returned are exactly those of the read (or write) of the
  underlying pipe in the state the preamble read left. As long as the goroutine has
  not run the call does not return; once it has run without a panic the call returns.
  The model takes the flag \<open>ready\<close> to be seen by the caller as soon as it is set.
\<close>

theorem readiness_gate:
  assumes new: "NewXrSession e host creds cmd = (Inr x, evs)"
  shows
    "(Read lib sched p (fold (Sleep lib) before (spawned x c)) = Some (r, buf, s') \<longrightarrow>
        True \<in> set (before @ sched) \<and> ready (xrs s') \<and>
        wire s' = [StdoutRead 128, StdoutRead (length p)] \<and>
        (r, buf, io s') =
          stdout_Read lib (stdout x) p (io (preamble_goroutine lib (spawned x c)))) \<and>
     (Write lib sched p (fold (Sleep lib) before (spawned x c)) = Some (rw, t') \<longrightarrow>
        True \<in> set (before @ sched) \<and> ready (xrs t') \<and>
        wire t' = [StdoutRead 128, StdinWrite p] \<and>
        (rw, io t') =
          stdin_Write lib (stdin x) p (io (preamble_goroutine lib (spawned x c)))) \<and>
     (True \<notin> set (before @ sched) \<longrightarrow>
        Read lib sched p (fold (Sleep lib) before (spawned x c)) = None \<and>
        Write lib sched p (fold (Sleep lib) before (spawned x c)) = None) \<and>
     (True \<in> set (before @ sched) \<and>
      crashed (preamble_goroutine lib (spawned x c)) = None \<longrightarrow>
        Read lib sched p (fold (Sleep lib) before (spawned x c)) \<noteq> None \<and>
        Write lib sched p (fold (Sleep lib) before (spawned x c)) \<noteq> None)"
proof -
  have nr: "\<not> ready x"
    using new by (rule NewXrSession_not_ready)
  note w = wait_ready_after_connect [OF nr, of lib sched before c]
  have rdy: "crashed (preamble_goroutine lib (spawned x c)) = None \<Longrightarrow>
      ready (xrs (preamble_goroutine lib (spawned x c)))"
    by (simp add: preamble_goroutine_ready)
  show ?thesis
    using rdy
    by (auto simp: Read_def Write_def w preamble_goroutine_fields
        split: prod.splits if_splits)
qed

text \<open>
  An instance on the stub pipes, where a banner and then \<^verbatim>\<open>pong\<close> arrive: a read
  whose second sleep lets the goroutine run returns \<^verbatim>\<open>pong\<close>, a write issued one
  sleep after the connect goes out after the preamble read, and neither returns
  under a schedule in which the goroutine does not run.
\<close>

theorem readiness_gate_witness:
  "Read stub_streams [False, True] ''....'' (spawned stub_xrs [''banner'', ''pong'']) =
     Some ((4, None), ''pong'', stub_ready\<lparr>io := [], wire := [StdoutRead 128, StdoutRead 4]\<rparr>) \<and>
   Write stub_streams [True] ''ping''
     (fold (Sleep stub_streams) [False] (spawned stub_xrs [''banner'', ''pong''])) =
     Some ((4, None), stub_ready\<lparr>wire := [StdoutRead 128, StdinWrite ''ping'']\<rparr>) \<and>
   Read stub_streams [False, False] ''....'' (spawned stub_xrs [''banner'', ''pong'']) = None \<and>
   Write stub_streams [False] ''ping''
     (fold (Sleep stub_streams) [False] (spawned stub_xrs [''banner'', ''pong''])) = None \<and>
   stdout_Read stub_streams (stdout stub_xrs) ''....'' (io stub_ready) =
     ((4, None), ''pong'', [])"
proof -
  note new = stub_NewXrSession
  have rd: "Read stub_streams [False, True] ''....''
        (fold (Sleep stub_streams) [] (spawned stub_xrs [''banner'', ''pong''])) =
      Some ((4, None), ''pong'',
            stub_ready\<lparr>io := [], wire := [StdoutRead 128, StdoutRead 4]\<rparr>)"
    by (simp add: stub_streams_unfold)
  have wr: "Write stub_streams [True] ''ping''
        (fold (Sleep stub_streams) [False] (spawned stub_xrs [''banner'', ''pong''])) =
      Some ((4, None), stub_ready\<lparr>wire := [StdoutRead 128, StdinWrite ''ping'']\<rparr>)"
    by (simp add: stub_streams_unfold)
  have blocked: "True \<notin> set ([] @ [False, False])" "True \<notin> set ([False] @ [False])"
    by simp_all
  from readiness_gate [OF new, of stub_streams "[False, True]" "''....''" "[]"
      "[''banner'', ''pong'']" "(4, None)" "''pong''"
      "stub_ready\<lparr>io := [], wire := [StdoutRead 128, StdoutRead 4]\<rparr>"] rd
  have a: "stdout_Read stub_streams (stdout stub_xrs) ''....'' (io stub_ready) =
      ((4, None), ''pong'', [])"
    by (auto simp: stub_preamble)
  from readiness_gate [OF new, of stub_streams "[False, False]" "''....''" "[]"
      "[''banner'', ''pong'']"] blocked(1)
  have b: "Read stub_streams [False, False] ''....''
      (spawned stub_xrs [''banner'', ''pong'']) = None"
    by simp
  from readiness_gate [OF new, of stub_streams "[False]" "''ping''" "[False]"
      "[''banner'', ''pong'']"] blocked(2)
  have c: "Write stub_streams [False] ''ping''
     (fold (Sleep stub_streams) [False] (spawned stub_xrs [''banner'', ''pong''])) = None"
    by simp
  from rd wr a b c show ?thesis
    by simp
qed

section \<open>A failing preamble read\<close>

text \<open>
  C2, as the code has it. Take the handle that a successful connect returns and let
  the read of the preamble fail. Then the goroutine panics with the message
  \<^verbatim>\<open>Can't read preamble: \<close> followed by the cause, which terminates the process; the
  handle never becomes ready, and no read or write on it returns, whenever it is
  issued and however long it polls: the failure reaches the caller neither as a byte
  count nor as an error.
\<close>

theorem preamble_failure_panics:
  assumes new: "NewXrSession e host creds cmd = (Inr x, evs)"
    and fails: "stdout_Read lib (stdout x) preamble_buf c = ((n, Some err), buf, c')"
  shows "crashed (preamble_goroutine lib (spawned x c)) =
           Some (''Can't read preamble: '' @ err) \<and>
         \<not> ready (xrs (preamble_goroutine lib (spawned x c))) \<and>
         Read lib sched p (fold (Sleep lib) before (spawned x c)) = None \<and>
         Write lib sched p (fold (Sleep lib) before (spawned x c)) = None"
proof -
  have nr: "\<not> ready x"
    using new by (rule NewXrSession_not_ready)
  note w = wait_ready_after_connect [OF nr, of lib sched before c]
  have c: "crashed (preamble_goroutine lib (spawned x c)) =
      Some (''Can't read preamble: '' @ err)"
    using fails by (simp add: preamble_goroutine_def)
  have r: "\<not> ready (xrs (preamble_goroutine lib (spawned x c)))"
    using fails nr by (simp add: preamble_goroutine_def)
  show ?thesis
    using c r by (simp add: Read_def Write_def w)
qed

text \<open>An instance: on the stub pipes with nothing to arrive, the preamble read gives EOF.\<close>

theorem preamble_failure_panics_witness:
  "stdout_Read stub_streams (stdout stub_xrs) preamble_buf [] =
     ((0, Some ''EOF''), preamble_buf, []) \<and>
   crashed (preamble_goroutine stub_streams (spawned stub_xrs [])) =
     Some ''Can't read preamble: EOF'' \<and>
   Read stub_streams [False, True, False] ''....''
     (fold (Sleep stub_streams) [False] (spawned stub_xrs [])) = None \<and>
   Write stub_streams [False, True, False] ''....''
     (fold (Sleep stub_streams) [False] (spawned stub_xrs [])) = None"
proof -
  note new = stub_NewXrSession
  have fails: "stdout_Read stub_streams (stdout stub_xrs) preamble_buf [] =
      ((0, Some ''EOF''), preamble_buf, [])"
    by (simp add: stub_streams_def)
  from preamble_failure_panics [OF new fails, of "[False, True, False]" "''....''" "[False]"]
    fails
  show ?thesis by simp
qed

text \<open>
  C2 as stated fails: when the preamble read gives EOF, the sleep during which the
  goroutine runs ends with the process terminated by the panic, and a read and a
  write issued on the handle do not return an error: they do not return.
\<close>

theorem preamble_failure_counterexample:
  "crashed (Sleep stub_streams True (spawned stub_xrs [])) = Some ''Can't read preamble: EOF'' \<and>
   Read stub_streams [True, True] ''....'' (spawned stub_xrs []) = None \<and>
   Write stub_streams [True, True] ''ping'' (spawned stub_xrs []) = None"
  by (simp add: stub_streams_unfold)

end
